theory Spec2Isabelle
  imports Main "HOL-Library.AList" "HOL-Library.Sublist"
begin

section \<open>Python values and exceptions\<close>

text \<open>
  The client is dynamically typed: what an operation returns is a Python value
  (\<open>None\<close>, \<open>True\<close>, a decoded JSON document), and keyword arguments carry
  arbitrary values. \<open>pyval\<close> is the fragment of Python values that JSON can carry.
  Strings are byte strings (\<open>char list\<close>).
\<close>

datatype pyval =
    PNone
  | PBool bool
  | PInt int
  | PStr string
  | PList "pyval list"
  | PDict "(string \<times> pyval) list"

text \<open>
  The exception classes of \<open>crowd.py\<close> (lines 14-45) and the built-in
  exceptions its operations can raise. \<open>DecodeError\<close> stands for the
  \<open>ValueError\<close> subclass that \<open>response.json()\<close> raises on a body that is
  not JSON, and \<open>ExpatError\<close> for what \<open>xmltodict.parse\<close> raises on a body
  that is not XML.
\<close>

datatype exn =
    CrowdAuthFailure
  | CrowdAuthDenied string
  | CrowdUserExists
  | CrowdNoSuchUser
  | CrowdGroupExists
  | CrowdNoSuchGroup
  | CrowdError string
  | ValueError string
  | KeyError string
  | TypeError
  | AttributeError
  | DecodeError
  | ExpatError

text \<open>
  \<open>CrowdError.__init__(self, message=None)\<close>: a missing or empty message is
  replaced by the default text.
\<close>

definition CrowdError_init :: "string option \<Rightarrow> exn" where
  "CrowdError_init message =
     (case message of
        None \<Rightarrow> CrowdError ''unexpected response from Crowd server''
      | Some m \<Rightarrow>
          if m = [] then CrowdError ''unexpected response from Crowd server''
          else CrowdError m)"

section \<open>String helpers\<close>

text \<open>\<open>str.rstrip(chars)\<close>: drop every trailing character that occurs in \<open>chars\<close>.\<close>

definition rstrip :: "string \<Rightarrow> string \<Rightarrow> string" where
  "rstrip chars s = rev (dropWhile (\<lambda>c. c \<in> set chars) (rev s))"

text \<open>\<open>str.lower()\<close> on a byte string: the letters A-Z go to a-z.\<close>

definition lower_char :: "char \<Rightarrow> char" where
  "lower_char c =
     (case map_of (zip ''ABCDEFGHIJKLMNOPQRSTUVWXYZ'' ''abcdefghijklmnopqrstuvwxyz'') c of
        None \<Rightarrow> c
      | Some l \<Rightarrow> l)"

definition lower :: "string \<Rightarrow> string" where
  "lower s = map lower_char s"

text \<open>\<open>s.startswith(p)\<close>.\<close>

definition startswith :: "string \<Rightarrow> string \<Rightarrow> bool" where
  "startswith s p = prefix p s"

text \<open>\<open>k.replace("_", "-")\<close>, specialised to the one use in \<open>add_user\<close>.\<close>

definition replace_underscore :: "string \<Rightarrow> string" where
  "replace_underscore k = map (\<lambda>c. if c = CHR ''_'' then CHR ''-'' else c) k"

text \<open>
  \<open>j[key]\<close> with a string key: a dict without the key raises \<open>KeyError\<close>,
  anything that is not a dict raises \<open>TypeError\<close>.
\<close>

fun getitem :: "pyval \<Rightarrow> string \<Rightarrow> exn + pyval" where
  "getitem (PDict kvs) key =
     (case map_of kvs key of None \<Rightarrow> Inl (KeyError key) | Some v \<Rightarrow> Inr v)"
| "getitem _ key = Inl TypeError"

text \<open>\<open>v.lower()\<close>: only a string has the attribute.\<close>

fun py_lower :: "pyval \<Rightarrow> exn + string" where
  "py_lower (PStr s) = Inr (lower s)"
| "py_lower _ = Inl AttributeError"

section \<open>The HTTP session\<close>

text \<open>
  The \<open>requests\<close> library is outside the repository. A request is recorded with
  what the client hands to the session (verb, URL, query parameters, body) and
  what the session adds to it (headers, basic auth, TLS policy). The body is kept
  as the value given to \<open>json.dumps\<close>. A response carries its status code, the
  outcome of its \<open>json()\<close> method (\<open>None\<close> when the decoder raises) and its raw
  content.
\<close>

datatype http_verb = GET | POST | DELETE

datatype ssl_verify = Verify bool | CA_BUNDLE string

record request =
  verb :: http_verb
  url :: string
  params :: "(string \<times> string) list"
  data :: "pyval option"
  req_headers :: "(string \<times> string) list"
  req_auth :: "string \<times> string"
  req_verify :: ssl_verify

record response =
  status_code :: int
  json :: "pyval option"
  content :: string

text \<open>
  \<open>Response.ok\<close> of \<open>requests\<close>: \<open>raise_for_status()\<close> raises exactly for a
  status code from 400 to 599, and \<open>ok\<close> is true when it does not raise.
\<close>

definition ok :: "response \<Rightarrow> bool" where
  "ok r = (\<not> (400 \<le> status_code r \<and> status_code r < 600))"

text \<open>\<open>response.json()\<close> as a fallible call.\<close>

definition response_json :: "response \<Rightarrow> exn + pyval" where
  "response_json r = (case json r of None \<Rightarrow> Inl DecodeError | Some j \<Rightarrow> Inr j)"

record Session =
  verify :: ssl_verify
  auth :: "string \<times> string"
  headers :: "(string \<times> string) list"

record CrowdServer =
  crowd_url :: string
  app_name :: string
  app_pass :: string
  rest_url :: string
  session :: Session

text \<open>
  The world an operation runs in: the client object (\<open>self\<close>) and the trace of
  the requests that have gone out on the wire, oldest first. The transport is a
  function from the request to the server's response (a simulated transport
  with one fixed response is \<open>\<lambda>_. r\<close>).
\<close>

record world =
  self :: CrowdServer
  wire :: "request list"

type_synonym transport = "request \<Rightarrow> response"

type_synonym 'a outcome = "(exn + 'a) \<times> world"

section \<open>CrowdServer\<close>

text \<open>
  \<open>__init__\<close> (lines 69-81). The headers start from the empty list: the
  library's own defaults (User-Agent, Accept-Encoding, Connection) are left out,
  and its default \<open>Accept\<close> is overwritten by the update. The last argument is
  the trace of the requests issued so far.
\<close>

definition CrowdServer_init ::
  "string \<Rightarrow> string \<Rightarrow> string \<Rightarrow> ssl_verify \<Rightarrow> request list \<Rightarrow> world" where
  "CrowdServer_init crowd_url' app_name' app_pass' ssl_verify' trace =
     \<lparr> self =
         \<lparr> crowd_url = crowd_url',
           app_name = app_name',
           app_pass = app_pass',
           rest_url = rstrip ''/'' crowd_url' @ ''/rest/usermanagement/1'',
           session =
             \<lparr> verify = ssl_verify',
               auth = (app_name', app_pass'),
               headers =
                 AList.update ''Accept'' ''application/json''
                   (AList.update ''Content-type'' ''application/json'' []) \<rparr> \<rparr>,
       wire = trace \<rparr>"

text \<open>
  \<open>self.session.get/post/delete\<close>: the session completes the request with its
  current headers, auth and TLS policy, sends it, and hands back the response.
\<close>

definition session_request ::
  "transport \<Rightarrow> http_verb \<Rightarrow> string \<Rightarrow> (string \<times> string) list \<Rightarrow> pyval option
     \<Rightarrow> world \<Rightarrow> response \<times> world" where
  "session_request t v u ps d w =
     (let s = session (self w);
          rq = \<lparr> verb = v, url = u, params = ps, data = d,
                 req_headers = headers s, req_auth = auth s, req_verify = verify s \<rparr>
      in (t rq, w\<lparr>wire := wire w @ [rq]\<rparr>))"

text \<open>\<open>_get\<close>, \<open>_post\<close>, \<open>_delete\<close> (lines 90-118).\<close>

definition CrowdServer_get ::
  "transport \<Rightarrow> string \<Rightarrow> (string \<times> string) list \<Rightarrow> world \<Rightarrow> response \<times> world" where
  "CrowdServer_get t u ps w = session_request t GET u ps None w"

definition CrowdServer_post ::
  "transport \<Rightarrow> string \<Rightarrow> pyval \<Rightarrow> (string \<times> string) list \<Rightarrow> world
     \<Rightarrow> response \<times> world" where
  "CrowdServer_post t u d ps w = session_request t POST u ps (Some d) w"

definition CrowdServer_delete ::
  "transport \<Rightarrow> string \<Rightarrow> (string \<times> string) list \<Rightarrow> world \<Rightarrow> response \<times> world" where
  "CrowdServer_delete t u ps w = session_request t DELETE u ps None w"

text \<open>\<open>auth_ping\<close> (lines 120-146).\<close>

definition auth_ping :: "transport \<Rightarrow> world \<Rightarrow> pyval outcome" where
  "auth_ping t w =
     (let u = rest_url (self w) @ ''/non-existent/location'';
          (response, w') = CrowdServer_get t u [] w
      in if status_code response = 401 then (Inr (PBool False), w')
         else if status_code response = 404 then (Inr (PBool True), w')
         else (Inl (CrowdError_init (Some ''unidentified problem'')), w'))"

text \<open>
  \<open>validate_session\<close> (lines 233-270). The default \<open>remote="127.0.0.1"\<close> is
  passed explicitly.
\<close>

definition validate_session :: "transport \<Rightarrow> string \<Rightarrow> string \<Rightarrow> world \<Rightarrow> pyval outcome" where
  "validate_session t token remote w =
     (let ps = PDict [(''validationFactors'',
                 PList [PDict [(''name'', PStr ''remote_address''),
                               (''value'', PStr remote)]])];
          u = rest_url (self w) @ ''/session/'' @ token;
          (response, w') = CrowdServer_post t u ps [(''expand'', ''user'')] w
      in if \<not> ok response then (Inl CrowdAuthFailure, w')
         else (response_json response, w'))"

text \<open>
  \<open>add_user\<close> (lines 294-357). \<open>kwargs\<close> is the keyword dictionary in its
  iteration order. The loop of lines 335-339 is \<open>put_values\<close>; the local part of
  the call, up to the finished payload, is \<open>add_user_data\<close>.

  The handler of lines 328-329 builds its \<open>ValueError\<close> from \<open>e.message\<close>. An
  exception of Python 3 has no attribute \<open>message\<close>, so the read raises
  \<open>AttributeError\<close> inside the handler, and that is the exception that leaves
  \<open>add_user\<close>. \<open>exception_message\<close> is the attribute read and
  \<open>KeyError_handler\<close> the handler, given the key that was missing.
\<close>

definition exception_message :: "exn \<Rightarrow> exn + string" where
  "exception_message e = Inl AttributeError"

definition KeyError_handler :: "string \<Rightarrow> exn" where
  "KeyError_handler key =
     (case exception_message (KeyError key) of
        Inl a \<Rightarrow> a
      | Inr m \<Rightarrow> ValueError (''missing '' @ m))"

fun put_values ::
  "(string \<times> pyval) list \<Rightarrow> (string \<times> pyval) list \<Rightarrow> exn + (string \<times> pyval) list" where
  "put_values d [] = Inr d"
| "put_values d ((k, v) # kwargs) =
     (let new_k = replace_underscore k
      in if new_k \<notin> set (map fst d) then Inl (ValueError (''invalid argument '' @ k))
         else put_values (AList.update new_k v d) kwargs)"

definition add_user_data ::
  "string \<Rightarrow> (string \<times> pyval) list \<Rightarrow> exn + (string \<times> pyval) list" where
  "add_user_data username kwargs =
     (case map_of kwargs ''email'' of
        None \<Rightarrow> Inl (KeyError_handler ''email'')
      | Some email \<Rightarrow>
          (case map_of kwargs ''password'' of
             None \<Rightarrow> Inl (KeyError_handler ''password'')
           | Some password \<Rightarrow>
               put_values
                 [(''name'', PStr username),
                  (''first-name'', PStr username),
                  (''last-name'', PStr username),
                  (''display-name'', PStr username),
                  (''email'', email),
                  (''password'', PDict [(''value'', password)]),
                  (''active'', PBool True)]
                 (AList.delete ''password'' kwargs)))"

definition add_user ::
  "transport \<Rightarrow> string \<Rightarrow> (string \<times> pyval) list \<Rightarrow> world \<Rightarrow> pyval outcome" where
  "add_user t username kwargs w =
     (case add_user_data username kwargs of
        Inl e \<Rightarrow> (Inl e, w)
      | Inr d \<Rightarrow>
          (let (response, w') =
                 CrowdServer_post t (rest_url (self w) @ ''/user'') (PDict d) [] w
           in if status_code response = 201 then (Inr (PBool True), w')
              else if status_code response = 400 then (Inl CrowdUserExists, w')
              else if status_code response = 403
                then (Inl (CrowdAuthDenied
                        ''application is not allowed to create a new user''), w')
              else (Inl (CrowdError_init None), w')))"

text \<open>\<open>get_user\<close> (lines 390-412).\<close>

definition get_user :: "transport \<Rightarrow> string \<Rightarrow> world \<Rightarrow> pyval outcome" where
  "get_user t username w =
     (let (response, w') =
            CrowdServer_get t (rest_url (self w) @ ''/user'')
              [(''username'', username), (''expand'', ''attributes'')] w
      in if status_code response = 200 then (response_json response, w')
         else if status_code response = 404 then (Inr PNone, w')
         else (Inl (CrowdError_init None), w'))"

text \<open>
  \<open>get_group_membership\<close> (lines 461-485). \<open>xmltodict.parse\<close> is outside the
  repository and is a parameter.
\<close>

definition get_group_membership ::
  "transport \<Rightarrow> (string \<Rightarrow> exn + pyval) \<Rightarrow> world \<Rightarrow> pyval outcome" where
  "get_group_membership t xmltodict_parse w =
     (let c = self w;
          s = session c;
          w1 = w\<lparr>self := c\<lparr>session := s\<lparr>headers :=
                 AList.update ''Accept'' ''application/xml''
                   (AList.update ''Content-type'' ''application/xml'' (headers s))\<rparr>\<rparr>\<rparr>;
          (response, w') =
            CrowdServer_get t (rest_url (self w1) @ ''/group/membership'') [] w1
      in if status_code response = 200 then (xmltodict_parse (content response), w')
         else if status_code response = 404 then (Inr PNone, w')
         else (Inl (CrowdError_init None), w'))"

text \<open>\<open>remove_user_from_group\<close> (lines 689-721).\<close>

definition remove_user_from_group ::
  "transport \<Rightarrow> string \<Rightarrow> string \<Rightarrow> world \<Rightarrow> pyval outcome" where
  "remove_user_from_group t username groupname w =
     (let (response, w') =
            CrowdServer_delete t (rest_url (self w) @ ''/group/user/direct'')
              [(''groupname'', groupname), (''username'', username)] w
      in if status_code response = 204 then (Inr (PBool True), w')
         else if status_code response = 404 then
           (case response_json response of
              Inl e \<Rightarrow> (Inl e, w')
            | Inr j \<Rightarrow>
                (case getitem j ''message'' of
                   Inl e \<Rightarrow> (Inl e, w')
                 | Inr m \<Rightarrow>
                     (case py_lower m of
                        Inl e \<Rightarrow> (Inl e, w')
                      | Inr l \<Rightarrow>
                          if startswith l ''group'' then (Inl CrowdNoSuchGroup, w')
                          else
                            (case py_lower m of
                               Inl e \<Rightarrow> (Inl e, w')
                             | Inr l' \<Rightarrow>
                                 if startswith l' ''user'' then (Inl CrowdNoSuchUser, w')
                                 else (Inl (CrowdError_init
                                              (Some ''unknown server response'')), w')))))
         else (Inl (CrowdError_init None), w'))"

text \<open>\<open>user_exists\<close> and \<open>group_exists\<close> (lines 723-761).\<close>

definition user_exists :: "transport \<Rightarrow> string \<Rightarrow> world \<Rightarrow> pyval outcome" where
  "user_exists t username w =
     (let (response, w') =
            CrowdServer_get t (rest_url (self w) @ ''/user'') [(''username'', username)] w
      in if \<not> ok response then (Inr PNone, w')
         else (Inr (PBool True), w'))"

definition group_exists :: "transport \<Rightarrow> string \<Rightarrow> world \<Rightarrow> pyval outcome" where
  "group_exists t group' w =
     (let (response, w') =
            CrowdServer_get t (rest_url (self w) @ ''/group'') [(''groupname'', group')] w
      in if \<not> ok response then (Inr PNone, w')
         else (Inr (PBool True), w'))"

text \<open>
  The keys of the payload that \<open>add_user\<close> starts from (lines 319-327): a
  keyword is accepted when its name, with \<open>_\<close> replaced by \<open>-\<close>, is one of
  them.
\<close>

definition payload_fields :: "string set" where
  "payload_fields =
     {''name'', ''first-name'', ''last-name'', ''display-name'', ''email'', ''password'',
      ''active''}"

text \<open>
  The values the caller supplied for a payload field, in iteration order: those
  of the keywords whose name, with \<open>_\<close> replaced by \<open>-\<close>, is the field.
\<close>

definition supplied :: "(string \<times> pyval) list \<Rightarrow> string \<Rightarrow> pyval list" where
  "supplied kwargs f = map snd (filter (\<lambda>(k, v). replace_underscore k = f) kwargs)"

section \<open>Shared facts\<close>

lemma put_values_invalid:
  assumes "(k, v) \<in> set kwargs" and "replace_underscore k \<notin> fst ` set d"
  shows "\<exists>k'. k' \<in> fst ` set kwargs \<and> replace_underscore k' \<notin> fst ` set d \<and>
              put_values d kwargs = Inl (ValueError (''invalid argument '' @ k'))"
  using assms
proof (induction kwargs arbitrary: d)
  case Nil
  then show ?case by simp
next
  case (Cons a kwargs)
  obtain k0 v0 where a: "a = (k0, v0)" by (cases a)
  show ?case
  proof (cases "replace_underscore k0 \<in> fst ` set d")
    case False
    then show ?thesis using a by (intro exI [of _ k0]) (simp add: Let_def)
  next
    case True
    then have dom: "fst ` set (AList.update (replace_underscore k0) v0 d) = fst ` set d"
      by (auto simp add: dom_update)
    from True Cons.prems a have "(k, v) \<in> set kwargs" by auto
    from Cons.IH [OF this, of "AList.update (replace_underscore k0) v0 d"] Cons.prems dom
    obtain k' where "k' \<in> fst ` set kwargs" "replace_underscore k' \<notin> fst ` set d"
      "put_values (AList.update (replace_underscore k0) v0 d) kwargs =
         Inl (ValueError (''invalid argument '' @ k'))"
      by auto
    then show ?thesis using a True by (intro exI [of _ k']) (simp add: Let_def)
  qed
qed

lemma put_values_field:
  assumes "put_values d kwargs = Inr d'"
  shows "map_of d' f =
           (if supplied kwargs f = [] then map_of d f else Some (last (supplied kwargs f)))"
  using assms
proof (induction kwargs arbitrary: d)
  case Nil
  then show ?case by (simp add: supplied_def)
next
  case (Cons a kwargs)
  obtain k0 v0 where a: "a = (k0, v0)" by (cases a)
  from Cons.prems a
  have step: "put_values (AList.update (replace_underscore k0) v0 d) kwargs = Inr d'"
    by (simp add: Let_def split: if_splits)
  from Cons.IH [OF step] show ?case
    using a by (simp add: supplied_def update_conv')
qed

lemma put_values_valid:
  assumes "\<forall>k \<in> fst ` set kwargs. replace_underscore k \<in> fst ` set d"
  shows "\<exists>d'. put_values d kwargs = Inr d'"
  using assms
proof (induction kwargs arbitrary: d)
  case Nil
  then show ?case by simp
next
  case (Cons a kwargs)
  obtain k0 v0 where a: "a = (k0, v0)" by (cases a)
  from Cons.prems a have here: "replace_underscore k0 \<in> fst ` set d" by simp
  then have "fst ` set (AList.update (replace_underscore k0) v0 d) = fst ` set d"
    by (auto simp add: dom_update)
  with Cons.prems
  have "\<forall>k \<in> fst ` set kwargs.
          replace_underscore k \<in> fst ` set (AList.update (replace_underscore k0) v0 d)"
    by simp
  from Cons.IH [OF this] show ?case using a here by (simp add: Let_def)
qed

lemma replace_underscore_password: "replace_underscore ''password'' = ''password''"
  by (simp add: replace_underscore_def)

lemma supplied_delete_password:
  "f \<noteq> ''password'' \<Longrightarrow> supplied (AList.delete ''password'' kwargs) f = supplied kwargs f"
proof (induction kwargs)
  case Nil
  then show ?case by (simp add: supplied_def)
next
  case (Cons a kwargs)
  then show ?case
    using replace_underscore_password
    by (cases a) (auto simp add: supplied_def)
qed

lemma initial_fields:
  "fst ` set [(''name'', a), (''first-name'', b), (''last-name'', c), (''display-name'', d),
              (''email'', e), (''password'', p), (''active'', g)] = payload_fields"
  by (auto simp add: payload_fields_def)

lemma password_field: "''password'' \<in> payload_fields"
  by (simp add: payload_fields_def)

lemma in_delete:
  "k \<noteq> k0 \<Longrightarrow> (k, v) \<in> set kwargs \<Longrightarrow> (k, v) \<in> set (AList.delete k0 kwargs)"
  by (simp add: AList.delete_eq)

lemma keys_present: "k \<in> fst ` set kwargs \<Longrightarrow> \<exists>v. map_of kwargs k = Some v"
  using map_of_eq_None_iff [of kwargs k] by auto

lemma add_user_data_present:
  assumes "map_of kwargs ''email'' = Some e" and "map_of kwargs ''password'' = Some p"
  shows "add_user_data username kwargs =
           put_values
             [(''name'', PStr username), (''first-name'', PStr username),
              (''last-name'', PStr username), (''display-name'', PStr username),
              (''email'', e), (''password'', PDict [(''value'', p)]),
              (''active'', PBool True)]
             (AList.delete ''password'' kwargs)"
  using assms by (simp add: add_user_data_def)

lemma add_user_local_failure:
  "add_user_data username kwargs = Inl e \<Longrightarrow> add_user t username kwargs w = (Inl e, w)"
  by (simp add: add_user_def)

lemma add_user_missing_key:
  assumes "''email'' \<notin> fst ` set kwargs \<or> ''password'' \<notin> fst ` set kwargs"
  shows "add_user t username kwargs w = (Inl AttributeError, w)"
proof (cases "map_of kwargs ''email''")
  case None
  then show ?thesis
    by (simp add: add_user_def add_user_data_def KeyError_handler_def exception_message_def)
next
  case (Some e)
  then have "''email'' \<in> fst ` set kwargs"
    using map_of_eq_None_iff [of kwargs "''email''"] by auto
  with assms have "''password'' \<notin> fst ` set kwargs" by simp
  then have "map_of kwargs ''password'' = None" by (simp add: map_of_eq_None_iff)
  with Some show ?thesis
    by (simp add: add_user_def add_user_data_def KeyError_handler_def exception_message_def)
qed

lemma rstrip_slash_split:
  "s = rstrip ''/'' s @ replicate (length s - length (rstrip ''/'' s)) CHR ''/''"
proof -
  let ?P = "\<lambda>c. c \<in> set ''/''"
  have tw: "takeWhile ?P (rev s) = replicate (length (takeWhile ?P (rev s))) CHR ''/''"
    by (rule replicate_length_same [symmetric]) (auto dest: set_takeWhileD)
  have "rev s = takeWhile ?P (rev s) @ dropWhile ?P (rev s)" by simp
  then have "s = rev (dropWhile ?P (rev s)) @ rev (takeWhile ?P (rev s))"
    by (metis rev_append rev_rev_ident)
  also have "rev (takeWhile ?P (rev s)) = replicate (length (takeWhile ?P (rev s))) CHR ''/''"
    using tw by (metis rev_replicate)
  finally have split: "s = rstrip ''/'' s @ replicate (length (takeWhile ?P (rev s))) CHR ''/''"
    by (simp add: rstrip_def)
  have "length s = length (rstrip ''/'' s) + length (takeWhile ?P (rev s))"
    using arg_cong [OF split, of length] by simp
  then have "length (takeWhile ?P (rev s)) = length s - length (rstrip ''/'' s)" by simp
  with split show ?thesis by simp
qed

lemma rstrip_slash_last:
  "rstrip ''/'' s \<noteq> [] \<Longrightarrow> last (rstrip ''/'' s) \<noteq> CHR ''/''"
proof -
  let ?P = "\<lambda>c. c \<in> set ''/''"
  assume "rstrip ''/'' s \<noteq> []"
  then have ne: "dropWhile ?P (rev s) \<noteq> []" by (simp add: rstrip_def)
  then have "\<not> ?P (hd (dropWhile ?P (rev s)))" by (rule hd_dropWhile)
  moreover have "last (rstrip ''/'' s) = hd (dropWhile ?P (rev s))"
    using ne by (simp add: rstrip_def last_rev)
  ultimately show ?thesis by simp
qed

lemma get_user_wire:
  "wire (snd (get_user t username w)) =
     wire w @ [\<lparr> verb = GET, url = rest_url (self w) @ ''/user'',
                 params = [(''username'', username), (''expand'', ''attributes'')],
                 data = None,
                 req_headers = headers (session (self w)),
                 req_auth = auth (session (self w)),
                 req_verify = verify (session (self w)) \<rparr>]"
  by (simp add: get_user_def CrowdServer_get_def session_request_def Let_def)

lemma get_group_membership_self:
  "self (snd (get_group_membership t xmltodict_parse w)) =
     (self w)\<lparr>session := (session (self w))\<lparr>headers :=
        AList.update ''Accept'' ''application/xml''
          (AList.update ''Content-type'' ''application/xml''
             (headers (session (self w))))\<rparr>\<rparr>"
  by (simp add: get_group_membership_def CrowdServer_get_def session_request_def Let_def)

lemma init_headers:
  "headers (session (self (CrowdServer_init base name pass policy trace))) =
     [(''Content-type'', ''application/json''), (''Accept'', ''application/json'')]"
  by (simp add: CrowdServer_init_def)

lemma xml_headers:
  "AList.update ''Accept'' ''application/xml''
     (AList.update ''Content-type'' ''application/xml''
        [(''Content-type'', ''application/json''), (''Accept'', ''application/json'')]) =
   [(''Content-type'', ''application/xml''), (''Accept'', ''application/xml'')]"
  by simp

section \<open>Properties\<close>

text \<open>
  C2. \<open>auth_ping\<close> sends one GET to the non-existent location and maps the
  response's status: 404 gives \<open>True\<close>, 401 gives \<open>False\<close>, and every other
  status raises \<open>CrowdError\<close>; there is no fourth outcome.
\<close>

theorem auth_ping_outcome:
  "\<exists>rq. snd (auth_ping t w) = w\<lparr>wire := wire w @ [rq]\<rparr> \<and>
        verb rq = GET \<and>
        url rq = rest_url (self w) @ ''/non-existent/location'' \<and>
        fst (auth_ping t w) =
          (if status_code (t rq) = 404 then Inr (PBool True)
           else if status_code (t rq) = 401 then Inr (PBool False)
           else Inl (CrowdError ''unidentified problem''))"
proof -
  let ?rq = "\<lparr> verb = GET, url = rest_url (self w) @ ''/non-existent/location'',
                params = [], data = None,
                req_headers = headers (session (self w)),
                req_auth = auth (session (self w)),
                req_verify = verify (session (self w)) \<rparr>"
  have "auth_ping t w =
          (if status_code (t ?rq) = 401 then Inr (PBool False)
           else if status_code (t ?rq) = 404 then Inr (PBool True)
           else Inl (CrowdError ''unidentified problem''),
           w\<lparr>wire := wire w @ [?rq]\<rparr>)"
    by (simp add: auth_ping_def CrowdServer_get_def session_request_def
          CrowdError_init_def Let_def)
  then show ?thesis
    by (intro exI [of _ ?rq]) simp
qed

text \<open>
  C1. On a 404 response whose body decodes to an object with a string
  \<open>message\<close>, \<open>remove_user_from_group\<close> raises \<open>CrowdNoSuchGroup\<close> when the
  lower-cased message starts with \<open>group\<close>, \<open>CrowdNoSuchUser\<close> when it starts
  with \<open>user\<close>, and \<open>CrowdError\<close> for every other message.
\<close>

theorem remove_user_from_group_404:
  assumes "status_code r = 404"
    and "json r = Some (PDict kvs)"
    and "map_of kvs ''message'' = Some (PStr m)"
  shows "fst (remove_user_from_group (\<lambda>_. r) username groupname w) =
           (if startswith (lower m) ''group'' then Inl CrowdNoSuchGroup
            else if startswith (lower m) ''user'' then Inl CrowdNoSuchUser
            else Inl (CrowdError ''unknown server response''))"
  using assms
  by (simp add: remove_user_from_group_def CrowdServer_delete_def session_request_def
        response_json_def CrowdError_init_def Let_def)

theorem remove_user_from_group_404_witness:
  "fst (remove_user_from_group
          (\<lambda>_. \<lparr> status_code = 404,
                  json = Some (PDict [(''reason'', PStr ''GROUP_NOT_FOUND''),
                                      (''message'', PStr ''Group <devs> does not exist'')]),
                  content = [] \<rparr>)
          ''bob'' ''devs'' (CrowdServer_init ''http://crowd/'' ''app'' ''secret'' (Verify False) []))
     = Inl CrowdNoSuchGroup \<and>
   fst (remove_user_from_group
          (\<lambda>_. \<lparr> status_code = 404,
                  json = Some (PDict [(''reason'', PStr ''USER_NOT_FOUND''),
                                      (''message'', PStr ''User <bob> does not exist'')]),
                  content = [] \<rparr>)
          ''bob'' ''devs'' (CrowdServer_init ''http://crowd/'' ''app'' ''secret'' (Verify False) []))
     = Inl CrowdNoSuchUser \<and>
   fst (remove_user_from_group
          (\<lambda>_. \<lparr> status_code = 404,
                  json = Some (PDict [(''message'', PStr ''Membership not found'')]),
                  content = [] \<rparr>)
          ''bob'' ''devs'' (CrowdServer_init ''http://crowd/'' ''app'' ''secret'' (Verify False) []))
     = Inl (CrowdError ''unknown server response'')"
  using
    remove_user_from_group_404
      [of "\<lparr> status_code = 404,
              json = Some (PDict [(''reason'', PStr ''GROUP_NOT_FOUND''),
                                  (''message'', PStr ''Group <devs> does not exist'')]),
              content = [] \<rparr>"
          "[(''reason'', PStr ''GROUP_NOT_FOUND''),
            (''message'', PStr ''Group <devs> does not exist'')]"
          "''Group <devs> does not exist''" "''bob''" "''devs''"
          "CrowdServer_init ''http://crowd/'' ''app'' ''secret'' (Verify False) []"]
    remove_user_from_group_404
      [of "\<lparr> status_code = 404,
              json = Some (PDict [(''reason'', PStr ''USER_NOT_FOUND''),
                                  (''message'', PStr ''User <bob> does not exist'')]),
              content = [] \<rparr>"
          "[(''reason'', PStr ''USER_NOT_FOUND''),
            (''message'', PStr ''User <bob> does not exist'')]"
          "''User <bob> does not exist''" "''bob''" "''devs''"
          "CrowdServer_init ''http://crowd/'' ''app'' ''secret'' (Verify False) []"]
    remove_user_from_group_404
      [of "\<lparr> status_code = 404,
              json = Some (PDict [(''message'', PStr ''Membership not found'')]),
              content = [] \<rparr>"
          "[(''message'', PStr ''Membership not found'')]"
          "''Membership not found''" "''bob''" "''devs''"
          "CrowdServer_init ''http://crowd/'' ''app'' ''secret'' (Verify False) []"]
  by (simp add: lower_def lower_char_def startswith_def)

text \<open>
  C5. \<open>validate_session\<close> tests \<open>response.ok\<close>, not the 2xx range. A status
  from 400 to 599 raises \<open>CrowdAuthFailure\<close>. Every other status, so every 2xx
  but also a 1xx or 3xx, returns what \<open>response.json()\<close> yields: the parsed body,
  or the decoder's error when the body is not JSON. At status 304 the call
  therefore does not raise \<open>CrowdAuthFailure\<close>.
\<close>

theorem validate_session_outcome:
  "(200 \<le> status_code r \<and> status_code r < 300 \<longrightarrow> json r = Some j \<longrightarrow>
      fst (validate_session (\<lambda>_. r) token remote w) = Inr j) \<and>
   (400 \<le> status_code r \<and> status_code r < 600 \<longrightarrow>
      fst (validate_session (\<lambda>_. r) token remote w) = Inl CrowdAuthFailure) \<and>
   (status_code r < 400 \<or> 600 \<le> status_code r \<longrightarrow>
      fst (validate_session (\<lambda>_. r) token remote w) = response_json r)"
  by (auto simp add: validate_session_def CrowdServer_post_def session_request_def
        response_json_def ok_def Let_def)

theorem validate_session_outcome_witness:
  "fst (validate_session
          (\<lambda>_. \<lparr> status_code = 200,
                  json = Some (PDict [(''token'', PStr ''abc123'')]),
                  content = [] \<rparr>)
          ''abc123'' ''127.0.0.1''
          (CrowdServer_init ''http://crowd/'' ''app'' ''secret'' (Verify False) []))
     = Inr (PDict [(''token'', PStr ''abc123'')]) \<and>
   fst (validate_session
          (\<lambda>_. \<lparr> status_code = 404, json = None, content = [] \<rparr>)
          ''abc123'' ''127.0.0.1''
          (CrowdServer_init ''http://crowd/'' ''app'' ''secret'' (Verify False) []))
     = Inl CrowdAuthFailure \<and>
   fst (validate_session
          (\<lambda>_. \<lparr> status_code = 302, json = None, content = [] \<rparr>)
          ''abc123'' ''127.0.0.1''
          (CrowdServer_init ''http://crowd/'' ''app'' ''secret'' (Verify False) []))
     = Inl DecodeError"
  using
    validate_session_outcome
      [of "\<lparr> status_code = 200, json = Some (PDict [(''token'', PStr ''abc123'')]),
              content = [] \<rparr>"
          "PDict [(''token'', PStr ''abc123'')]" "''abc123''" "''127.0.0.1''"
          "CrowdServer_init ''http://crowd/'' ''app'' ''secret'' (Verify False) []"]
    validate_session_outcome
      [of "\<lparr> status_code = 404, json = None, content = [] \<rparr>"
          PNone "''abc123''" "''127.0.0.1''"
          "CrowdServer_init ''http://crowd/'' ''app'' ''secret'' (Verify False) []"]
    validate_session_outcome
      [of "\<lparr> status_code = 302, json = None, content = [] \<rparr>"
          PNone "''abc123''" "''127.0.0.1''"
          "CrowdServer_init ''http://crowd/'' ''app'' ''secret'' (Verify False) []"]
  by (simp add: response_json_def)

theorem validate_session_counterexample:
  "fst (validate_session
          (\<lambda>_. \<lparr> status_code = 304,
                  json = Some (PDict [(''token'', PStr ''abc123'')]),
                  content = [] \<rparr>)
          ''abc123'' ''127.0.0.1''
          (CrowdServer_init ''http://crowd/'' ''app'' ''secret'' (Verify False) []))
     = Inr (PDict [(''token'', PStr ''abc123'')]) \<and>
   fst (validate_session
          (\<lambda>_. \<lparr> status_code = 304, json = None, content = [] \<rparr>)
          ''abc123'' ''127.0.0.1''
          (CrowdServer_init ''http://crowd/'' ''app'' ''secret'' (Verify False) []))
     = Inl DecodeError"
  by (simp add: validate_session_def CrowdServer_post_def session_request_def
        response_json_def ok_def Let_def)

text \<open>
  C7. \<open>get_user\<close> returns \<open>None\<close> on a 404 instead of raising, returns the
  parsed body on a 200 whose body is JSON, and raises \<open>CrowdError\<close> with the
  default message on every other status.
\<close>

theorem get_user_outcome:
  "(status_code r = 404 \<longrightarrow> fst (get_user (\<lambda>_. r) username w) = Inr PNone) \<and>
   (status_code r = 200 \<longrightarrow> json r = Some j \<longrightarrow>
      fst (get_user (\<lambda>_. r) username w) = Inr j) \<and>
   (status_code r \<noteq> 200 \<and> status_code r \<noteq> 404 \<longrightarrow>
      fst (get_user (\<lambda>_. r) username w) =
        Inl (CrowdError ''unexpected response from Crowd server''))"
  by (simp add: get_user_def CrowdServer_get_def session_request_def
        response_json_def CrowdError_init_def Let_def)

theorem get_user_outcome_witness:
  "fst (get_user (\<lambda>_. \<lparr> status_code = 404, json = None, content = [] \<rparr>) ''bob''
          (CrowdServer_init ''http://crowd/'' ''app'' ''secret'' (Verify False) []))
     = Inr PNone \<and>
   fst (get_user
          (\<lambda>_. \<lparr> status_code = 200,
                  json = Some (PDict [(''name'', PStr ''bob''), (''active'', PBool True)]),
                  content = [] \<rparr>) ''bob''
          (CrowdServer_init ''http://crowd/'' ''app'' ''secret'' (Verify False) []))
     = Inr (PDict [(''name'', PStr ''bob''), (''active'', PBool True)]) \<and>
   fst (get_user (\<lambda>_. \<lparr> status_code = 500, json = None, content = [] \<rparr>) ''bob''
          (CrowdServer_init ''http://crowd/'' ''app'' ''secret'' (Verify False) []))
     = Inl (CrowdError ''unexpected response from Crowd server'')"
  using
    get_user_outcome
      [of "\<lparr> status_code = 404, json = None, content = [] \<rparr>" "''bob''"
          "CrowdServer_init ''http://crowd/'' ''app'' ''secret'' (Verify False) []" PNone]
    get_user_outcome
      [of "\<lparr> status_code = 200,
              json = Some (PDict [(''name'', PStr ''bob''), (''active'', PBool True)]),
              content = [] \<rparr>" "''bob''"
          "CrowdServer_init ''http://crowd/'' ''app'' ''secret'' (Verify False) []"
          "PDict [(''name'', PStr ''bob''), (''active'', PBool True)]"]
    get_user_outcome
      [of "\<lparr> status_code = 500, json = None, content = [] \<rparr>" "''bob''"
          "CrowdServer_init ''http://crowd/'' ''app'' ''secret'' (Verify False) []" PNone]
  by simp

text \<open>
  C8. \<open>user_exists\<close> and \<open>group_exists\<close> leave the client object as it was, and
  a second call with the same argument against the same transport returns what
  the first call returned.
\<close>

theorem exists_idempotent:
  "fst (user_exists t username (snd (user_exists t username w))) =
     fst (user_exists t username w) \<and>
   self (snd (user_exists t username w)) = self w \<and>
   fst (group_exists t groupname (snd (group_exists t groupname w))) =
     fst (group_exists t groupname w) \<and>
   self (snd (group_exists t groupname w)) = self w"
  by (simp add: user_exists_def group_exists_def CrowdServer_get_def session_request_def
        Let_def)

text \<open>
  C3. A call that omits \<open>email\<close> or \<open>password\<close> is meant to raise
  \<open>ValueError\<close> naming the missing field before anything is sent. Nothing is
  sent, but the handler fails on \<open>e.message\<close>: the exception that leaves
  \<open>add_user\<close> is \<open>AttributeError\<close>, not a \<open>ValueError\<close> that names the field.
\<close>

theorem add_user_missing_required_raises:
  "add_user t ''bob'' [(''password'', PStr ''s3cret''), (''first_name'', PStr ''Robert'')] w
     = (Inl AttributeError, w) \<and>
   add_user t ''bob'' [(''email'', PStr ''bob@example.com'')] w
     = (Inl AttributeError, w)"
  by (simp add: add_user_def add_user_data_def KeyError_handler_def exception_message_def)

text \<open>
  C4. The docstring lists the keywords \<open>password\<close>, \<open>email\<close>, \<open>first_name\<close>,
  \<open>last_name\<close>, \<open>display_name\<close> and \<open>active\<close>, and the guard of line 337 is
  there to reject every other one. The guard tests the keyword against the keys
  of the payload, and \<open>name\<close> is one of them: a call with \<open>name\<close> raises
  nothing, and the request goes out with the payload's \<open>name\<close> replaced.
\<close>

theorem add_user_accepts_name:
  "fst (add_user (\<lambda>_. \<lparr> status_code = 201, json = None, content = [] \<rparr>) ''bob''
          [(''email'', PStr ''bob@example.com''), (''password'', PStr ''s3cret''),
           (''name'', PStr ''alice'')]
          (CrowdServer_init ''http://crowd/'' ''app'' ''secret'' (Verify False) []))
   = Inr (PBool True) \<and>
   map data
     (wire (snd (add_user (\<lambda>_. \<lparr> status_code = 201, json = None, content = [] \<rparr>) ''bob''
          [(''email'', PStr ''bob@example.com''), (''password'', PStr ''s3cret''),
           (''name'', PStr ''alice'')]
          (CrowdServer_init ''http://crowd/'' ''app'' ''secret'' (Verify False) []))))
   = [Some (PDict [(''name'', PStr ''alice''), (''first-name'', PStr ''bob''),
                   (''last-name'', PStr ''bob''), (''display-name'', PStr ''bob''),
                   (''email'', PStr ''bob@example.com''),
                   (''password'', PDict [(''value'', PStr ''s3cret'')]),
                   (''active'', PBool True)])]"
  by (simp add: add_user_def add_user_data_def replace_underscore_def
        CrowdServer_post_def session_request_def CrowdServer_init_def Let_def)

text \<open>
  What the guard does reject: when both mandatory keywords are present and
  some keyword's name, with \<open>_\<close> replaced by \<open>-\<close>, is not a key of the initial
  payload, \<open>add_user\<close> raises \<open>ValueError\<close> with the message
  \<open>invalid argument\<close> followed by such a keyword, and nothing has been sent.
\<close>

theorem add_user_invalid_argument:
  assumes "''email'' \<in> fst ` set kwargs" and "''password'' \<in> fst ` set kwargs"
    and "k \<in> fst ` set kwargs" and "replace_underscore k \<notin> payload_fields"
  shows "\<exists>k'. k' \<in> fst ` set kwargs \<and> replace_underscore k' \<notin> payload_fields \<and>
              add_user t username kwargs w =
                (Inl (ValueError (''invalid argument '' @ k')), w)"
proof -
  from keys_present [OF assms(1)] obtain e where e: "map_of kwargs ''email'' = Some e" ..
  from keys_present [OF assms(2)] obtain p where p: "map_of kwargs ''password'' = Some p" ..
  define d where "d = [(''name'', PStr username), (''first-name'', PStr username),
             (''last-name'', PStr username), (''display-name'', PStr username),
             (''email'', e), (''password'', PDict [(''value'', p)]),
             (''active'', PBool True)]"
  have d: "fst ` set d = payload_fields"
    unfolding d_def by (rule initial_fields)
  have data: "add_user_data username kwargs = put_values d (AList.delete ''password'' kwargs)"
    unfolding d_def by (rule add_user_data_present [OF e p])
  have neq: "k \<noteq> ''password''"
  proof
    assume "k = ''password''"
    then have "replace_underscore k \<in> payload_fields"
      by (simp only: replace_underscore_password password_field)
    with assms(4) show False ..
  qed
  from assms(3) obtain v where "(k, v) \<in> set kwargs" by force
  from in_delete [OF neq this]
  have "(k, v) \<in> set (AList.delete ''password'' kwargs)" .
  moreover from assms(4) have "replace_underscore k \<notin> fst ` set d"
    unfolding d .
  ultimately obtain k' where k': "k' \<in> fst ` set (AList.delete ''password'' kwargs)"
      "replace_underscore k' \<notin> fst ` set d"
      "put_values d (AList.delete ''password'' kwargs) =
         Inl (ValueError (''invalid argument '' @ k'))"
    using put_values_invalid [of k v "AList.delete ''password'' kwargs" d] by blast
  from k'(1) dom_delete_subset [of "''password''" kwargs]
  have "k' \<in> fst ` set kwargs" by (rule subsetD [rotated])
  moreover from k'(2) have "replace_underscore k' \<notin> payload_fields"
    unfolding d .
  moreover from k'(3) data
  have "add_user_data username kwargs = Inl (ValueError (''invalid argument '' @ k'))"
    by (simp only:)
  then have "add_user t username kwargs w = (Inl (ValueError (''invalid argument '' @ k')), w)"
    by (rule add_user_local_failure)
  ultimately show ?thesis by blast
qed

theorem add_user_invalid_argument_witness:
  "add_user (\<lambda>_. \<lparr> status_code = 201, json = None, content = [] \<rparr>) ''bob''
     [(''email'', PStr ''bob@example.com''), (''first_name'', PStr ''Robert''),
      (''nickname'', PStr ''bobby''), (''password'', PStr ''s3cret'')]
     (CrowdServer_init ''http://crowd/'' ''app'' ''secret'' (Verify False) [])
   = (Inl (ValueError ''invalid argument nickname''),
      CrowdServer_init ''http://crowd/'' ''app'' ''secret'' (Verify False) [])"
  using
    add_user_invalid_argument
      [of "[(''email'', PStr ''bob@example.com''), (''first_name'', PStr ''Robert''),
            (''nickname'', PStr ''bobby''), (''password'', PStr ''s3cret'')]"
          "''nickname''"
          "\<lambda>_. \<lparr> status_code = 201, json = None, content = [] \<rparr>" "''bob''"
          "CrowdServer_init ''http://crowd/'' ''app'' ''secret'' (Verify False) []"]
  by (simp add: add_user_def add_user_data_def replace_underscore_def Let_def)

text \<open>
  C10. When a call passes the local checks (both mandatory keywords present,
  every keyword accepted), \<open>add_user\<close> posts a payload in which
  \<open>first-name\<close>, \<open>last-name\<close> and \<open>display-name\<close> are the username and
  \<open>active\<close> is \<open>True\<close> wherever the caller supplied no value for the field,
  and the caller's value (the last one in iteration order) wherever one was
  supplied.
\<close>

theorem add_user_payload_defaults:
  assumes "''email'' \<in> fst ` set kwargs" and "''password'' \<in> fst ` set kwargs"
    and "\<forall>k \<in> fst ` set kwargs. replace_underscore k \<in> payload_fields"
  shows "\<exists>d. add_user_data username kwargs = Inr d \<and>
             map data (wire (snd (add_user t username kwargs w))) =
               map data (wire w) @ [Some (PDict d)] \<and>
             (\<forall>f \<in> {''first-name'', ''last-name'', ''display-name''}.
                map_of d f =
                  Some (if supplied kwargs f = [] then PStr username
                        else last (supplied kwargs f))) \<and>
             map_of d ''active'' =
               Some (if supplied kwargs ''active'' = [] then PBool True
                     else last (supplied kwargs ''active''))"
proof -
  from keys_present [OF assms(1)] obtain e where e: "map_of kwargs ''email'' = Some e" ..
  from keys_present [OF assms(2)] obtain p where p: "map_of kwargs ''password'' = Some p" ..
  define d0 where "d0 = [(''name'', PStr username), (''first-name'', PStr username),
             (''last-name'', PStr username), (''display-name'', PStr username),
             (''email'', e), (''password'', PDict [(''value'', p)]),
             (''active'', PBool True)]"
  have keys: "fst ` set d0 = payload_fields"
    unfolding d0_def by (rule initial_fields)
  have eq: "add_user_data username kwargs = put_values d0 (AList.delete ''password'' kwargs)"
    unfolding d0_def by (rule add_user_data_present [OF e p])
  have "\<forall>k \<in> fst ` set (AList.delete ''password'' kwargs).
          replace_underscore k \<in> fst ` set d0"
    using assms(3) dom_delete_subset [of "''password''" kwargs] unfolding keys by blast
  from put_values_valid [OF this] obtain d
    where d: "put_values d0 (AList.delete ''password'' kwargs) = Inr d" ..
  have field: "map_of d f =
                 (if supplied kwargs f = [] then map_of d0 f else Some (last (supplied kwargs f)))"
    if "f \<noteq> ''password''" for f
    using put_values_field [OF d, of f] supplied_delete_password [OF that, of kwargs]
    by simp
  have first: "map_of d0 ''first-name'' = Some (PStr username)"
    and last: "map_of d0 ''last-name'' = Some (PStr username)"
    and display: "map_of d0 ''display-name'' = Some (PStr username)"
    and active: "map_of d0 ''active'' = Some (PBool True)"
    by (simp_all add: d0_def)
  have data: "add_user_data username kwargs = Inr d"
    using eq d by simp
  have sent: "map data (wire (snd (add_user t username kwargs w))) =
                map data (wire w) @ [Some (PDict d)]"
    by (simp add: add_user_def data CrowdServer_post_def session_request_def Let_def)
  have f1: "map_of d ''first-name'' =
              Some (if supplied kwargs ''first-name'' = [] then PStr username
                    else last (supplied kwargs ''first-name''))"
    using field [of "''first-name''"] first by simp
  have f2: "map_of d ''last-name'' =
              Some (if supplied kwargs ''last-name'' = [] then PStr username
                    else last (supplied kwargs ''last-name''))"
    using field [of "''last-name''"] last by simp
  have f3: "map_of d ''display-name'' =
              Some (if supplied kwargs ''display-name'' = [] then PStr username
                    else last (supplied kwargs ''display-name''))"
    using field [of "''display-name''"] display by simp
  have f4: "map_of d ''active'' =
              Some (if supplied kwargs ''active'' = [] then PBool True
                    else last (supplied kwargs ''active''))"
    using field [of "''active''"] active by simp
  show ?thesis
    using data sent f1 f2 f3 f4 by (intro exI [of _ d]) simp
qed

theorem add_user_payload_defaults_witness:
  "map data
     (wire (snd (add_user (\<lambda>_. \<lparr> status_code = 201, json = None, content = [] \<rparr>) ''bob''
        [(''email'', PStr ''bob@example.com''), (''password'', PStr ''s3cret''),
         (''first_name'', PStr ''Robert''), (''active'', PBool False)]
        (CrowdServer_init ''http://crowd/'' ''app'' ''secret'' (Verify False) []))))
   = [Some (PDict [(''name'', PStr ''bob''), (''first-name'', PStr ''Robert''),
                   (''last-name'', PStr ''bob''), (''display-name'', PStr ''bob''),
                   (''email'', PStr ''bob@example.com''),
                   (''password'', PDict [(''value'', PStr ''s3cret'')]),
                   (''active'', PBool False)])]"
  using
    add_user_payload_defaults
      [of "[(''email'', PStr ''bob@example.com''), (''password'', PStr ''s3cret''),
            (''first_name'', PStr ''Robert''), (''active'', PBool False)]"
          "''bob''"
          "\<lambda>_. \<lparr> status_code = 201, json = None, content = [] \<rparr>"
          "CrowdServer_init ''http://crowd/'' ''app'' ''secret'' (Verify False) []"]
  by (simp add: add_user_def add_user_data_def replace_underscore_def
        CrowdServer_post_def session_request_def CrowdServer_init_def Let_def)

text \<open>
  C9. For a non-empty base URL the constructor sets \<open>rest_url\<close> to the base
  URL without its trailing slashes (the stem: what is left when all of them are
  cut off) followed by \<open>/rest/usermanagement/1\<close>, stores the base URL, the
  application name and password and the TLS policy, and leaves the trace of
  requests as it found it.
\<close>

theorem CrowdServer_init_state:
  assumes "base \<noteq> []"
  shows "\<exists>stem n.
           base = stem @ replicate n CHR ''/'' \<and>
           (stem = [] \<or> last stem \<noteq> CHR ''/'') \<and>
           rest_url (self (CrowdServer_init base name pass policy trace)) =
             stem @ ''/rest/usermanagement/1'' \<and>
           crowd_url (self (CrowdServer_init base name pass policy trace)) = base \<and>
           app_name (self (CrowdServer_init base name pass policy trace)) = name \<and>
           app_pass (self (CrowdServer_init base name pass policy trace)) = pass \<and>
           auth (session (self (CrowdServer_init base name pass policy trace))) = (name, pass) \<and>
           verify (session (self (CrowdServer_init base name pass policy trace))) = policy \<and>
           wire (CrowdServer_init base name pass policy trace) = trace"
proof -
  have "stem = [] \<or> last stem \<noteq> CHR ''/''" if "stem = rstrip ''/'' base" for stem
    using that rstrip_slash_last [of base] by auto
  then show ?thesis
    using rstrip_slash_split [of base]
    by (intro exI [of _ "rstrip ''/'' base"]
          exI [of _ "length base - length (rstrip ''/'' base)"])
       (simp add: CrowdServer_init_def)
qed

theorem CrowdServer_init_state_witness:
  "rest_url (self (CrowdServer_init ''https://crowd.example.com/crowd//'' ''app'' ''secret''
                     (CA_BUNDLE ''/etc/ssl/ca.pem'') []))
     = ''https://crowd.example.com/crowd/rest/usermanagement/1'' \<and>
   auth (session (self (CrowdServer_init ''https://crowd.example.com/crowd//'' ''app''
                     ''secret'' (CA_BUNDLE ''/etc/ssl/ca.pem'') [])))
     = (''app'', ''secret'') \<and>
   verify (session (self (CrowdServer_init ''https://crowd.example.com/crowd//'' ''app''
                     ''secret'' (CA_BUNDLE ''/etc/ssl/ca.pem'') [])))
     = CA_BUNDLE ''/etc/ssl/ca.pem'' \<and>
   wire (CrowdServer_init ''https://crowd.example.com/crowd//'' ''app'' ''secret''
           (CA_BUNDLE ''/etc/ssl/ca.pem'') []) = []"
  using CrowdServer_init_state
          [of "''https://crowd.example.com/crowd//''" "''app''" "''secret''"
              "CA_BUNDLE ''/etc/ssl/ca.pem''" "[]"]
  by (simp add: CrowdServer_init_def rstrip_def)

text \<open>
  C6. The switch to the XML headers is meant to hold for the one call.
  \<open>get_group_membership\<close> updates the session's headers in place and does not
  put the JSON headers back: on a new client, a \<open>get_user\<close> that follows
  \<open>get_group_membership\<close> goes out with the XML headers, where the same call on
  the new client goes out with the JSON headers.
\<close>

theorem get_group_membership_leaks_headers:
  "req_headers (last (wire (snd (get_user t username
      (snd (get_group_membership t xmltodict_parse
         (CrowdServer_init base name pass policy trace)))))))
     = [(''Content-type'', ''application/xml''), (''Accept'', ''application/xml'')] \<and>
   req_headers (last (wire (snd (get_user t username
      (CrowdServer_init base name pass policy trace)))))
     = [(''Content-type'', ''application/json''), (''Accept'', ''application/json'')]"
  by (simp add: get_user_wire get_group_membership_self init_headers xml_headers
        del: AList.update.simps)

end
